theory Spec2Isabelle
  imports Main "HOL-Library.Word"
begin

unbundle bit_operations_syntax

section \<open>The path resolver of the FUSE adapter (fuse/seaf-fuse.c)\<close>

text \<open>
  A C string is modelled by its content, the characters before the terminating NUL, as a
  HOL \<open>string\<close>. A pointer into the string is an offset from its start.
\<close>

text \<open>
  \<^verbatim>\<open>strchr (s, c)\<close> of the C library, for a character \<open>c\<close> other than NUL: the offset of
  the first occurrence of \<open>c\<close> in \<open>s\<close>, or \<open>None\<close> for the null pointer.
\<close>

fun strchr :: "string \<Rightarrow> char \<Rightarrow> nat option" where
  "strchr [] c = None"
| "strchr (x # xs) c = (if x = c then Some 0 else map_option Suc (strchr xs c))"

text \<open>\<^verbatim>\<open>g_strndup (s, n)\<close> of GLib: a fresh copy of at most the first \<open>n\<close> characters.\<close>

definition g_strndup :: "string \<Rightarrow> nat \<Rightarrow> string" where
  "g_strndup s n = take n s"

text \<open>
  The first two lines of \<^verbatim>\<open>parse_fuse_path\<close>:
  \<^verbatim>\<open>if (*path == '/') ++path;\<close>
  On the empty string \<^verbatim>\<open>*path\<close> is the terminator, so nothing is skipped.
\<close>

fun skip_leading_slash :: "string \<Rightarrow> string" where
  "skip_leading_slash [] = []"
| "skip_leading_slash (c # cs) = (if c = CHR ''/'' then cs else c # cs)"

datatype parse_error = ParseError

text \<open>
  \<^verbatim>\<open>int parse_fuse_path (const char *path, char **repo_id, char **repo_path)\<close>.
  The return value \<open>-1\<close> is \<open>Inl ParseError\<close>; the return value \<open>0\<close> is \<open>Inr\<close> of the two
  strings stored through \<^verbatim>\<open>repo_id\<close> and \<^verbatim>\<open>repo_path\<close>. Nothing is stored, and nothing
  is allocated, when \<open>-1\<close> is returned.
\<close>

definition parse_fuse_path :: "string \<Rightarrow> parse_error + (string \<times> string)" where
  "parse_fuse_path path0 =
     (let path = skip_leading_slash path0 in
      case strchr path (CHR ''/'') of
        None \<Rightarrow>
          if length path < 36 then Inl ParseError
          else Inr (g_strndup path 36, ''/'')
      | Some p \<Rightarrow>
          if p < 36 then Inl ParseError
          else Inr (g_strndup path 36, drop (Suc p) path))"

section \<open>Data of the session and of the kernel interface\<close>

text \<open>
  The structures below are declared in headers outside \<^verbatim>\<open>fuse/seaf-fuse.c\<close>; each
  record keeps the fields that the adapter reads.
  \<^verbatim>\<open>repo->id\<close> (here \<open>repo_ident\<close>) is the identifier of a repository,
  \<^verbatim>\<open>repo->head\<close> is the branch of a repository, \<^verbatim>\<open>branch->commit_id\<close> the identifier of
  its commit, \<^verbatim>\<open>commit->root_id\<close> the root object of the commit. The adapter
  dereferences \<^verbatim>\<open>repo->head\<close> without a test, so a repository handle always carries its
  branch here.
\<close>

record SeafBranch =
  commit_id :: string

record SeafRepo =
  repo_ident :: string
  head :: SeafBranch

record SeafCommit =
  root_id :: string

record Seafile =
  seafile_ident :: string
  seafile_size :: nat

text \<open>
  \<^verbatim>\<open>struct fuse_file_info\<close> of the FUSE library: the open flags and the file handle that
  an \<^verbatim>\<open>open\<close> operation may set.
\<close>

record fuse_file_info =
  flags :: "32 word"
  fh :: "64 word"

text \<open>\<^verbatim>\<open>struct stat\<close>: the fields a file-system adapter fills in.\<close>

record stat =
  st_mode :: "32 word"
  st_nlink :: nat
  st_size :: int

text \<open>\<^verbatim>\<open>memset (stbuf, 0, sizeof (struct stat))\<close>\<close>

definition stat_zero :: stat where
  "stat_zero = \<lparr>st_mode = 0, st_nlink = 0, st_size = 0\<rparr>"

text \<open>
  The global \<^verbatim>\<open>SeafileSession *seaf\<close> with its managers, seen through the lookups that
  the adapter calls on them. Each lookup returns \<open>None\<close> where the C function returns the
  null pointer.
  \<^item> \<open>get_repo\<close>: \<^verbatim>\<open>seaf_repo_manager_get_repo (seaf->repo_mgr, repo_id)\<close>;
  \<^item> \<open>get_commit\<close>: \<^verbatim>\<open>seaf_commit_manager_get_commit (seaf->commit_mgr, commit_id)\<close>;
  \<^item> \<open>path_to_obj_id\<close>: \<^verbatim>\<open>seaf_fs_manager_path_to_obj_id (seaf->fs_mgr, root_id, path,
    &mode, NULL)\<close>, the object identifier together with the mode stored through
    \<^verbatim>\<open>&mode\<close>;
  \<^item> \<open>get_seafile_id_by_path\<close>: \<^verbatim>\<open>seaf_fs_manager_get_seafile_id_by_path (seaf->fs_mgr,
    root_id, path, NULL)\<close>;
  \<^item> \<open>get_seafile\<close>: \<^verbatim>\<open>seaf_fs_manager_get_seafile (seaf->fs_mgr, file_id)\<close>;
  \<^item> \<open>repo_list\<close>: the repositories known to the registry.
\<close>

record SeafileSession =
  get_repo :: "string \<Rightarrow> SeafRepo option"
  get_commit :: "string \<Rightarrow> SeafCommit option"
  path_to_obj_id :: "string \<Rightarrow> string \<Rightarrow> (string \<times> 32 word) option"
  get_seafile_id_by_path :: "string \<Rightarrow> string \<Rightarrow> string option"
  get_seafile :: "string \<Rightarrow> Seafile option"
  repo_list :: "SeafRepo list"

text \<open>
  The functions of the sibling files of the adapter, which \<^verbatim>\<open>seaf-fuse.c\<close> only calls.
  They are parameters of the model. A function that fills a \<^verbatim>\<open>struct stat\<close> or a read
  buffer returns the new content beside its return value; a function that lists a
  directory returns the names it passes to the \<^verbatim>\<open>filler\<close> callback, in order.
\<close>

record fuse_helpers =
  getattr_root :: "SeafileSession \<Rightarrow> string \<Rightarrow> stat \<Rightarrow> int \<times> stat"
  getattr_repo :: "SeafileSession \<Rightarrow> string \<Rightarrow> stat \<Rightarrow> int \<times> stat"
  readdir_root :: "SeafileSession \<Rightarrow> string \<Rightarrow> int \<Rightarrow> fuse_file_info \<Rightarrow> int \<times> string list"
  readdir_repo :: "SeafileSession \<Rightarrow> string \<Rightarrow> int \<Rightarrow> fuse_file_info \<Rightarrow> int \<times> string list"
  read_file :: "SeafileSession \<Rightarrow> Seafile \<Rightarrow> 8 word list \<Rightarrow> nat \<Rightarrow> int \<Rightarrow> fuse_file_info
                  \<Rightarrow> int \<times> 8 word list"

text \<open>Constants of the system headers, with their Linux values.\<close>

definition O_RDONLY :: "32 word" where
  "O_RDONLY = 0"

definition EACCES :: int where
  "EACCES = 13"

definition ENOENT :: int where
  "ENOENT = 2"

text \<open>\<^verbatim>\<open>S_ISREG (m)\<close> is \<^verbatim>\<open>((m) & S_IFMT) == S_IFREG\<close>, with octal 0170000 and 0100000.\<close>

definition S_ISREG :: "32 word \<Rightarrow> bool" where
  "S_ISREG m \<longleftrightarrow> m AND 0xF000 = 0x8000"

section \<open>Resources held by a call\<close>

text \<open>
  What a call of the adapter allocates or takes a reference to, and itself frees or
  unrefs: the two strings made by \<^verbatim>\<open>parse_fuse_path\<close>, the repository and the commit
  (reference counted), the object identifier returned by
  \<^verbatim>\<open>seaf_fs_manager_path_to_obj_id\<close> and the file identifier returned by
  \<^verbatim>\<open>seaf_fs_manager_get_seafile_id_by_path\<close>. The state threaded through \<^verbatim>\<open>open\<close>
  and \<^verbatim>\<open>read\<close> is the list of resources held and not yet released; an acquisition
  adds one entry, a release removes one. The file object that \<^verbatim>\<open>seaf_fuse_read\<close> hands
  to \<^verbatim>\<open>read_file\<close> is not in the list: \<^verbatim>\<open>seaf_fuse_read\<close> never frees or unrefs it.
\<close>

datatype resource =
  RepoIdStr | RepoPathStr | RepoRef | CommitRef | ObjIdStr | FileIdStr

definition acquire :: "resource \<Rightarrow> resource list \<Rightarrow> resource list" where
  "acquire r held = r # held"

text \<open>\<^verbatim>\<open>g_free (p)\<close> for a pointer \<open>p\<close> that is not null.\<close>

definition g_free :: "resource \<Rightarrow> resource list \<Rightarrow> resource list" where
  "g_free r held = remove1 r held"

text \<open>
  \<^verbatim>\<open>g_free (file_id)\<close> in \<^verbatim>\<open>seaf_fuse_read\<close>, where \<^verbatim>\<open>file_id\<close> may still be
  \<^verbatim>\<open>NULL\<close>: freeing the null pointer does nothing.
\<close>

definition g_free_opt :: "'a option \<Rightarrow> resource \<Rightarrow> resource list \<Rightarrow> resource list" where
  "g_free_opt p r held = (case p of None \<Rightarrow> held | Some _ \<Rightarrow> remove1 r held)"

text \<open>
  \<^verbatim>\<open>seaf_repo_unref\<close> and \<^verbatim>\<open>seaf_commit_unref\<close> drop one reference; the adapter calls
  them on variables initialised to \<^verbatim>\<open>NULL\<close>, on which they do nothing.
\<close>

definition seaf_repo_unref :: "SeafRepo option \<Rightarrow> resource list \<Rightarrow> resource list" where
  "seaf_repo_unref repo held = (case repo of None \<Rightarrow> held | Some _ \<Rightarrow> remove1 RepoRef held)"

definition seaf_commit_unref :: "SeafCommit option \<Rightarrow> resource list \<Rightarrow> resource list" where
  "seaf_commit_unref commit held =
     (case commit of None \<Rightarrow> held | Some _ \<Rightarrow> remove1 CommitRef held)"

section \<open>The four operations\<close>

text \<open>
  \<^verbatim>\<open>seaf_fuse_getattr\<close>. \<^verbatim>\<open>path + 1\<close> is the path without its first character. On
  the empty path, which is not \<^verbatim>\<open>/\<close>, the pointer \<^verbatim>\<open>path + 1\<close> is past the terminator
  and \<^verbatim>\<open>getattr_repo\<close> would read outside the string: the C gives no defined result,
  and the model gives \<open>None\<close>.
\<close>

definition seaf_fuse_getattr ::
    "fuse_helpers \<Rightarrow> SeafileSession \<Rightarrow> string \<Rightarrow> stat \<Rightarrow> (int \<times> stat) option" where
  "seaf_fuse_getattr h seaf path stbuf0 =
     (let stbuf = stat_zero in
      if path = ''/'' then Some (getattr_root h seaf path stbuf)
      else
        case path of
          [] \<Rightarrow> None
        | _ # rest \<Rightarrow> Some (getattr_repo h seaf rest stbuf))"

text \<open>
  \<^verbatim>\<open>seaf_fuse_readdir\<close>. The result is the return value and the names passed to
  \<^verbatim>\<open>filler\<close>, in the order of the calls. The two calls of \<^verbatim>\<open>filler\<close> come before
  \<^verbatim>\<open>path + 1\<close> is formed; the kernel passes absolute paths, which begin with a
  separator, and on the empty path the model passes the empty string on to
  \<^verbatim>\<open>readdir_repo\<close>.
\<close>

definition seaf_fuse_readdir ::
    "fuse_helpers \<Rightarrow> SeafileSession \<Rightarrow> string \<Rightarrow> int \<Rightarrow> fuse_file_info \<Rightarrow> int \<times> string list" where
  "seaf_fuse_readdir h seaf path offset info =
     (let emitted = [''.'', ''..''] in
      if path = ''/'' then
        (case readdir_root h seaf path offset info of (ret, names) \<Rightarrow> (ret, emitted @ names))
      else
        (case readdir_repo h seaf (tl path) offset info of (ret, names) \<Rightarrow> (ret, emitted @ names)))"

text \<open>
  The code after the label \<^verbatim>\<open>out:\<close> of \<^verbatim>\<open>seaf_fuse_open\<close>, entered with the current
  values of \<^verbatim>\<open>repo\<close>, \<^verbatim>\<open>commit\<close> and \<^verbatim>\<open>ret\<close>.
\<close>

definition open_out ::
    "SeafRepo option \<Rightarrow> SeafCommit option \<Rightarrow> int \<Rightarrow> resource list \<Rightarrow> int \<times> resource list" where
  "open_out repo commit ret held =
     (let held = g_free RepoIdStr held;
          held = g_free RepoPathStr held;
          held = seaf_repo_unref repo held;
          held = seaf_commit_unref commit held
      in (ret, held))"

text \<open>
  \<^verbatim>\<open>seaf_fuse_open\<close>. The result is the return value, the \<^verbatim>\<open>fuse_file_info\<close> structure
  as the call leaves it, and the resources held at the return.
\<close>

definition seaf_fuse_open ::
    "SeafileSession \<Rightarrow> string \<Rightarrow> fuse_file_info \<Rightarrow> resource list
      \<Rightarrow> int \<times> fuse_file_info \<times> resource list" where
  "seaf_fuse_open seaf path info held0 =
     (if flags info AND 3 \<noteq> O_RDONLY then (- EACCES, info, held0)
      else
        case parse_fuse_path path of
          Inl _ \<Rightarrow> (- ENOENT, info, held0)
        | Inr (repo_id, repo_path) \<Rightarrow>
            let held1 = acquire RepoPathStr (acquire RepoIdStr held0) in
            (case get_repo seaf repo_id of
               None \<Rightarrow>
                 (case open_out None None (- ENOENT) held1 of (ret, held) \<Rightarrow> (ret, info, held))
             | Some repo \<Rightarrow>
                 let held2 = acquire RepoRef held1;
                     branch = head repo
                 in
                 (case get_commit seaf (commit_id branch) of
                    None \<Rightarrow>
                      (case open_out (Some repo) None (- ENOENT) held2 of
                         (ret, held) \<Rightarrow> (ret, info, held))
                  | Some commit \<Rightarrow>
                      let held3 = acquire CommitRef held2 in
                      (case path_to_obj_id seaf (root_id commit) repo_path of
                         None \<Rightarrow>
                           (case open_out (Some repo) (Some commit) (- ENOENT) held3 of
                              (ret, held) \<Rightarrow> (ret, info, held))
                       | Some (obj_id, mode) \<Rightarrow>
                           let held4 = g_free ObjIdStr (acquire ObjIdStr held3) in
                           if \<not> S_ISREG mode then (- EACCES, info, held4)
                           else
                             (case open_out (Some repo) (Some commit) 0 held4 of
                                (ret, held) \<Rightarrow> (ret, info, held))))))"

text \<open>The code after the label \<^verbatim>\<open>out:\<close> of \<^verbatim>\<open>seaf_fuse_read\<close>.\<close>

definition read_out ::
    "SeafRepo option \<Rightarrow> SeafCommit option \<Rightarrow> string option \<Rightarrow> int \<Rightarrow> resource list
      \<Rightarrow> int \<times> resource list" where
  "read_out repo commit file_id ret held =
     (let held = g_free RepoIdStr held;
          held = g_free RepoPathStr held;
          held = g_free_opt file_id FileIdStr held;
          held = seaf_repo_unref repo held;
          held = seaf_commit_unref commit held
      in (ret, held))"

text \<open>
  \<^verbatim>\<open>seaf_fuse_read\<close>. The result is the return value, the buffer as the call leaves it,
  and the resources held at the return.
\<close>

definition seaf_fuse_read ::
    "fuse_helpers \<Rightarrow> SeafileSession \<Rightarrow> string \<Rightarrow> 8 word list \<Rightarrow> nat \<Rightarrow> int \<Rightarrow> fuse_file_info
      \<Rightarrow> resource list \<Rightarrow> int \<times> 8 word list \<times> resource list" where
  "seaf_fuse_read h seaf path buf size' offset info held0 =
     (if flags info AND 3 \<noteq> O_RDONLY then (- EACCES, buf, held0)
      else
        case parse_fuse_path path of
          Inl _ \<Rightarrow> (- ENOENT, buf, held0)
        | Inr (repo_id, repo_path) \<Rightarrow>
            let held1 = acquire RepoPathStr (acquire RepoIdStr held0) in
            (case get_repo seaf repo_id of
               None \<Rightarrow>
                 (case read_out None None None (- ENOENT) held1 of
                    (ret, held) \<Rightarrow> (ret, buf, held))
             | Some repo \<Rightarrow>
                 let held2 = acquire RepoRef held1;
                     branch = head repo
                 in
                 (case get_commit seaf (commit_id branch) of
                    None \<Rightarrow>
                      (case read_out (Some repo) None None (- ENOENT) held2 of
                         (ret, held) \<Rightarrow> (ret, buf, held))
                  | Some commit \<Rightarrow>
                      let held3 = acquire CommitRef held2 in
                      (case get_seafile_id_by_path seaf (root_id commit) repo_path of
                         None \<Rightarrow>
                           (case read_out (Some repo) (Some commit) None (- ENOENT) held3 of
                              (ret, held) \<Rightarrow> (ret, buf, held))
                       | Some file_id \<Rightarrow>
                           let held4 = acquire FileIdStr held3 in
                           (case get_seafile seaf file_id of
                              None \<Rightarrow>
                                (case read_out (Some repo) (Some commit) (Some file_id)
                                        (- ENOENT) held4 of
                                   (ret, held) \<Rightarrow> (ret, buf, held))
                            | Some file \<Rightarrow>
                                (case read_file h seaf file buf size' offset info of
                                   (ret, buf') \<Rightarrow>
                                     (case read_out (Some repo) (Some commit) (Some file_id)
                                             ret held4 of
                                        (ret', held) \<Rightarrow> (ret', buf', held))))))))"

section \<open>The calls of getattr and read with the state they run in\<close>

text \<open>
  In the definitions above the session is a value that no call changes. Here the calls
  that \<^verbatim>\<open>seaf_fuse_getattr\<close> and \<^verbatim>\<open>seaf_fuse_read\<close> make into the rest of the program
  are state transformers: \<open>'w\<close> is the state of everything outside the call (the stores,
  their caches, the reference counts of the handles), and each function called takes
  that state and returns the new one beside its result. The two unref functions take
  the value of the C variable, \<open>None\<close> for \<^verbatim>\<open>NULL\<close>. The strings made by
  \<^verbatim>\<open>parse_fuse_path\<close> are allocated and freed within the call and are not part of
  \<open>'w\<close>.
\<close>

record 'w collaborators =
  repo_manager_get_repo :: "string \<Rightarrow> 'w \<Rightarrow> SeafRepo option \<times> 'w"
  commit_manager_get_commit :: "string \<Rightarrow> 'w \<Rightarrow> SeafCommit option \<times> 'w"
  fs_manager_get_seafile_id_by_path :: "string \<Rightarrow> string \<Rightarrow> 'w \<Rightarrow> string option \<times> 'w"
  fs_manager_get_seafile :: "string \<Rightarrow> 'w \<Rightarrow> Seafile option \<times> 'w"
  repo_unref :: "SeafRepo option \<Rightarrow> 'w \<Rightarrow> 'w"
  commit_unref :: "SeafCommit option \<Rightarrow> 'w \<Rightarrow> 'w"
  run_read_file :: "Seafile \<Rightarrow> 8 word list \<Rightarrow> nat \<Rightarrow> int \<Rightarrow> fuse_file_info \<Rightarrow> 'w
                      \<Rightarrow> (int \<times> 8 word list) \<times> 'w"
  run_getattr_root :: "string \<Rightarrow> stat \<Rightarrow> 'w \<Rightarrow> (int \<times> stat) \<times> 'w"
  run_getattr_repo :: "string \<Rightarrow> stat \<Rightarrow> 'w \<Rightarrow> (int \<times> stat) \<times> 'w"

text \<open>
  \<^verbatim>\<open>seaf_fuse_getattr\<close> in a state \<open>w\<close>: the return value and the \<^verbatim>\<open>struct stat\<close>, with
  the state after the call; \<open>None\<close> on the empty path, as above.
\<close>

definition seaf_fuse_getattr_st ::
    "'w collaborators \<Rightarrow> string \<Rightarrow> stat \<Rightarrow> 'w \<Rightarrow> ((int \<times> stat) \<times> 'w) option" where
  "seaf_fuse_getattr_st c path stbuf0 w =
     (let stbuf = stat_zero in
      if path = ''/'' then Some (run_getattr_root c path stbuf w)
      else
        case path of
          [] \<Rightarrow> None
        | _ # rest \<Rightarrow> Some (run_getattr_repo c rest stbuf w))"

text \<open>
  The code after the label \<^verbatim>\<open>out:\<close> of \<^verbatim>\<open>seaf_fuse_read\<close>, as far as it acts on the
  state: \<^verbatim>\<open>seaf_repo_unref (repo); seaf_commit_unref (commit);\<close>
\<close>

definition read_out_st :: "'w collaborators \<Rightarrow> SeafRepo option \<Rightarrow> SeafCommit option \<Rightarrow> 'w \<Rightarrow> 'w" where
  "read_out_st c repo commit w = commit_unref c commit (repo_unref c repo w)"

text \<open>
  \<^verbatim>\<open>seaf_fuse_read\<close> in a state \<open>w\<close>: the return value and the buffer, with the state
  after the call.
\<close>

definition seaf_fuse_read_st ::
    "'w collaborators \<Rightarrow> string \<Rightarrow> 8 word list \<Rightarrow> nat \<Rightarrow> int \<Rightarrow> fuse_file_info \<Rightarrow> 'w
      \<Rightarrow> (int \<times> 8 word list) \<times> 'w" where
  "seaf_fuse_read_st c path buf size' offset info w =
     (if flags info AND 3 \<noteq> O_RDONLY then ((- EACCES, buf), w)
      else
        case parse_fuse_path path of
          Inl _ \<Rightarrow> ((- ENOENT, buf), w)
        | Inr (repo_id, repo_path) \<Rightarrow>
            (case repo_manager_get_repo c repo_id w of
               (None, w1) \<Rightarrow> ((- ENOENT, buf), read_out_st c None None w1)
             | (Some repo, w1) \<Rightarrow>
                 let branch = head repo in
                 (case commit_manager_get_commit c (commit_id branch) w1 of
                    (None, w2) \<Rightarrow> ((- ENOENT, buf), read_out_st c (Some repo) None w2)
                  | (Some commit, w2) \<Rightarrow>
                      (case fs_manager_get_seafile_id_by_path c (root_id commit) repo_path w2 of
                         (None, w3) \<Rightarrow>
                           ((- ENOENT, buf), read_out_st c (Some repo) (Some commit) w3)
                       | (Some file_id, w3) \<Rightarrow>
                           (case fs_manager_get_seafile c file_id w3 of
                              (None, w4) \<Rightarrow>
                                ((- ENOENT, buf), read_out_st c (Some repo) (Some commit) w4)
                            | (Some file, w4) \<Rightarrow>
                                (case run_read_file c file buf size' offset info w4 of
                                   ((ret, buf'), w5) \<Rightarrow>
                                     ((ret, buf'),
                                      read_out_st c (Some repo) (Some commit) w5)))))))"

text \<open>
  What the claim about repeated calls takes for granted of the collaborators. \<open>R w w'\<close>
  reads: the external stores are in the same state in \<open>w\<close> and in \<open>w'\<close>. A function
  called in two such states returns the same result and leaves two such states.
\<close>

definition agree_on :: "('w \<Rightarrow> 'w \<Rightarrow> bool) \<Rightarrow> ('w \<Rightarrow> 'a \<times> 'w) \<Rightarrow> bool" where
  "agree_on R f \<longleftrightarrow>
     (\<forall>w w'. R w w' \<longrightarrow> fst (f w) = fst (f w') \<and> R (snd (f w)) (snd (f w')))"

definition keeps :: "('w \<Rightarrow> 'w \<Rightarrow> bool) \<Rightarrow> ('w \<Rightarrow> 'w) \<Rightarrow> bool" where
  "keeps R f \<longleftrightarrow> (\<forall>w w'. R w w' \<longrightarrow> R (f w) (f w'))"

definition collaborators_agree :: "('w \<Rightarrow> 'w \<Rightarrow> bool) \<Rightarrow> 'w collaborators \<Rightarrow> bool" where
  "collaborators_agree R c \<longleftrightarrow>
     (\<forall>repo_id. agree_on R (repo_manager_get_repo c repo_id)) \<and>
     (\<forall>cid. agree_on R (commit_manager_get_commit c cid)) \<and>
     (\<forall>root p. agree_on R (fs_manager_get_seafile_id_by_path c root p)) \<and>
     (\<forall>fid. agree_on R (fs_manager_get_seafile c fid)) \<and>
     (\<forall>repo. keeps R (repo_unref c repo)) \<and>
     (\<forall>commit. keeps R (commit_unref c commit)) \<and>
     (\<forall>file buf n offset info. agree_on R (run_read_file c file buf n offset info)) \<and>
     (\<forall>p st. agree_on R (run_getattr_root c p st)) \<and>
     (\<forall>p st. agree_on R (run_getattr_repo c p st))"

section \<open>The pipeline of the specification\<close>

text \<open>
  The three stages that the specification names for \<^verbatim>\<open>open\<close>: resolve the virtual path,
  locate the repository and the commit of its head, walk the tree of that commit along
  the in-repository path. \<open>None\<close> when any stage fails, otherwise the object identifier
  and the mode word of the entry found.
\<close>

definition resolve_locate_walk :: "SeafileSession \<Rightarrow> string \<Rightarrow> (string \<times> 32 word) option" where
  "resolve_locate_walk seaf path =
     (case parse_fuse_path path of
        Inl _ \<Rightarrow> None
      | Inr (repo_id, repo_path) \<Rightarrow>
          Option.bind (get_repo seaf repo_id) (\<lambda>repo.
          Option.bind (get_commit seaf (commit_id (head repo))) (\<lambda>commit.
            path_to_obj_id seaf (root_id commit) repo_path)))"

text \<open>
  Modelled from the spec: \<^verbatim>\<open>readdir_root\<close> lives in a sibling file of the adapter that
  is not among the sources at hand. The specification says of the mount root that the
  listing "emits one entry per repository known to the registry" and that every known
  repository is "named by its identifier token at the mount root".
\<close>

definition readdir_root_spec ::
    "SeafileSession \<Rightarrow> string \<Rightarrow> int \<Rightarrow> fuse_file_info \<Rightarrow> int \<times> string list" where
  "readdir_root_spec seaf path offset info = (0, map repo_ident (repo_list seaf))"

section \<open>An example session\<close>

text \<open>
  One repository whose head commit has a root directory (mode octal 040755) and a regular
  file \<^verbatim>\<open>docs/readme.txt\<close> (mode octal 0100644) of 120 bytes. It serves to evaluate the
  operations at concrete inputs.
\<close>

definition example_repo :: SeafRepo where
  "example_repo =
     \<lparr>repo_ident = ''3b2e4f6a-1c2d-4e5f-8a9b-0c1d2e3f4a5b'', head = \<lparr>commit_id = ''c1''\<rparr>\<rparr>"

definition example_session :: SeafileSession where
  "example_session =
     \<lparr>get_repo = (\<lambda>rid. if rid = repo_ident example_repo then Some example_repo else None),
      get_commit = (\<lambda>cid. if cid = ''c1'' then Some \<lparr>root_id = ''r1''\<rparr> else None),
      path_to_obj_id = (\<lambda>root p.
         if root = ''r1'' \<and> p = ''/'' then Some (''r1'', 0x41ED)
         else if root = ''r1'' \<and> p = ''docs/readme.txt'' then Some (''f1'', 0x81A4)
         else None),
      get_seafile_id_by_path = (\<lambda>root p.
         if root = ''r1'' \<and> p = ''docs/readme.txt'' then Some ''f1'' else None),
      get_seafile = (\<lambda>fid.
         if fid = ''f1'' then Some \<lparr>seafile_ident = ''f1'', seafile_size = 120\<rparr> else None),
      repo_list = [example_repo]\<rparr>"

text \<open>
  Helpers for the example: the root is a directory; a read returns the number of bytes
  between the offset and the end of the file, at most the size asked for, and leaves the
  buffer as it is.
\<close>

definition example_helpers :: fuse_helpers where
  "example_helpers =
     \<lparr>getattr_root = (\<lambda>seaf p st. (0, st\<lparr>st_mode := 0x41ED, st_nlink := 2\<rparr>)),
      getattr_repo = (\<lambda>seaf p st.
         case resolve_locate_walk seaf p of
           None \<Rightarrow> (- ENOENT, st)
         | Some (obj, m) \<Rightarrow> (0, st\<lparr>st_mode := m, st_nlink := 1\<rparr>)),
      readdir_root = readdir_root_spec,
      readdir_repo = (\<lambda>seaf p offset info.
         if resolve_locate_walk seaf p = None then (- ENOENT, []) else (0, [''docs''])),
      read_file = (\<lambda>seaf file buf n offset info.
         (int (min n (seafile_size file - nat offset)), buf))\<rparr>"


text \<open>
  Collaborators for the example: the state is a session and the number of calls made so
  far; every function answers from the session, as in the definitions without state, and
  counts itself. Two states have the stores in the same state when their sessions are
  equal.
\<close>

definition counting_collaborators :: "fuse_helpers \<Rightarrow> (SeafileSession \<times> nat) collaborators" where
  "counting_collaborators h =
     \<lparr>repo_manager_get_repo = (\<lambda>rid (seaf, k). (get_repo seaf rid, (seaf, Suc k))),
      commit_manager_get_commit = (\<lambda>cid (seaf, k). (get_commit seaf cid, (seaf, Suc k))),
      fs_manager_get_seafile_id_by_path =
        (\<lambda>root p (seaf, k). (get_seafile_id_by_path seaf root p, (seaf, Suc k))),
      fs_manager_get_seafile = (\<lambda>fid (seaf, k). (get_seafile seaf fid, (seaf, Suc k))),
      repo_unref = (\<lambda>repo (seaf, k). (seaf, Suc k)),
      commit_unref = (\<lambda>commit (seaf, k). (seaf, Suc k)),
      run_read_file = (\<lambda>file buf n offset info (seaf, k).
        (read_file h seaf file buf n offset info, (seaf, Suc k))),
      run_getattr_root = (\<lambda>p st (seaf, k). (getattr_root h seaf p st, (seaf, Suc k))),
      run_getattr_repo = (\<lambda>p st (seaf, k). (getattr_repo h seaf p st, (seaf, Suc k)))\<rparr>"

definition same_session :: "SeafileSession \<times> nat \<Rightarrow> SeafileSession \<times> nat \<Rightarrow> bool" where
  "same_session w w' \<longleftrightarrow> fst w = fst w'"

section \<open>Facts about the path resolver\<close>

lemma strchr_None_iff: "strchr s c = None \<longleftrightarrow> c \<notin> set s"
  by (induction s) auto

lemma strchr_Some_less: "strchr s c = Some p \<Longrightarrow> p < length s"
  by (induction s arbitrary: p) (auto split: if_splits)

lemma strchr_append_first:
  "c \<notin> set pre \<Longrightarrow> strchr (pre @ c # post) c = Some (length pre)"
  by (induction pre) auto

lemma parse_skipped_no_sep:
  assumes "skip_leading_slash path = ident" "length ident = 36" "CHR ''/'' \<notin> set ident"
  shows "parse_fuse_path path = Inr (ident, ''/'')"
proof -
  have "strchr ident (CHR ''/'') = None"
    using assms(3) by (simp add: strchr_None_iff)
  then show ?thesis
    using assms(1,2) by (simp add: parse_fuse_path_def g_strndup_def)
qed

lemma parse_skipped_sep:
  assumes "skip_leading_slash path = ident @ CHR ''/'' # rest"
    and "length ident = 36" "CHR ''/'' \<notin> set ident"
  shows "parse_fuse_path path = Inr (ident, rest)"
proof -
  have "strchr (ident @ CHR ''/'' # rest) (CHR ''/'') = Some (length ident)"
    using assms(3) by (rule strchr_append_first)
  then show ?thesis
    using assms(1,2) by (simp add: parse_fuse_path_def g_strndup_def)
qed

lemma skip_leading_slash_ident:
  "length ident = 36 \<Longrightarrow> CHR ''/'' \<notin> set ident \<Longrightarrow> skip_leading_slash (ident @ s) = ident @ s"
  by (cases ident) auto

section \<open>Facts about open and read\<close>

text \<open>The pipeline fails exactly when one of its four stages does.\<close>

lemma resolve_locate_walk_None_iff:
  "resolve_locate_walk seaf path = None \<longleftrightarrow>
     parse_fuse_path path = Inl ParseError \<or>
     (\<exists>repo_id repo_path. parse_fuse_path path = Inr (repo_id, repo_path) \<and>
        (get_repo seaf repo_id = None \<or>
         (\<exists>repo. get_repo seaf repo_id = Some repo \<and>
            (get_commit seaf (commit_id (head repo)) = None \<or>
             (\<exists>commit. get_commit seaf (commit_id (head repo)) = Some commit \<and>
                path_to_obj_id seaf (root_id commit) repo_path = None)))))"
proof (cases "parse_fuse_path path")
  case (Inl e)
  then show ?thesis
    by (cases e) (simp add: resolve_locate_walk_def)
next
  case (Inr pr)
  then show ?thesis
    by (cases pr) (auto simp: resolve_locate_walk_def split: Option.bind_splits)
qed

lemma open_info_unchanged: "fst (snd (seaf_fuse_open seaf path info held)) = info"
  by (simp add: seaf_fuse_open_def Let_def split: sum.splits option.splits prod.splits)

lemma open_ret:
  "fst (seaf_fuse_open seaf path info held) =
     (if flags info AND 3 \<noteq> O_RDONLY then - EACCES
      else case resolve_locate_walk seaf path of
             None \<Rightarrow> - ENOENT
           | Some (obj, mode) \<Rightarrow> if S_ISREG mode then 0 else - EACCES)"
  by (auto simp: seaf_fuse_open_def resolve_locate_walk_def open_out_def Let_def
      split: sum.splits option.splits prod.splits)

text \<open>
  What \<^verbatim>\<open>open\<close> still holds when it returns: nothing of its own, except on the path
  \<^verbatim>\<open>if (!S_ISREG(mode)) return -EACCES;\<close>, which leaves before the label \<^verbatim>\<open>out:\<close>.
\<close>

lemma open_held:
  "snd (snd (seaf_fuse_open seaf path info held)) =
     (if flags info AND 3 \<noteq> O_RDONLY then held
      else case resolve_locate_walk seaf path of
             None \<Rightarrow> held
           | Some (obj, mode) \<Rightarrow>
               if S_ISREG mode then held
               else CommitRef # RepoRef # RepoPathStr # RepoIdStr # held)"
  by (auto simp: seaf_fuse_open_def resolve_locate_walk_def open_out_def Let_def
      acquire_def g_free_def seaf_repo_unref_def seaf_commit_unref_def
      split: sum.splits option.splits prod.splits)

text \<open>\<^verbatim>\<open>read\<close> releases, on every path, each resource of the list that it acquired.\<close>

lemma read_held: "snd (snd (seaf_fuse_read h seaf path buf n offset info held)) = held"
  by (auto simp: seaf_fuse_read_def read_out_def Let_def
      acquire_def g_free_def g_free_opt_def seaf_repo_unref_def seaf_commit_unref_def
      split: sum.splits option.splits prod.splits)

lemma read_result_indep_held:
  "fst (seaf_fuse_read h seaf path buf n offset info held) =
     fst (seaf_fuse_read h seaf path buf n offset info held') \<and>
   fst (snd (seaf_fuse_read h seaf path buf n offset info held)) =
     fst (snd (seaf_fuse_read h seaf path buf n offset info held'))"
  by (auto simp: seaf_fuse_read_def read_out_def Let_def
      split: sum.splits option.splits prod.splits)

section \<open>Facts about the calls with state\<close>

lemma agree_onD:
  assumes "agree_on R f" and "R w w'"
  obtains x v v' where "f w = (x, v)" and "f w' = (x, v')" and "R v v'"
proof -
  from assms have "fst (f w) = fst (f w')" and "R (snd (f w)) (snd (f w'))"
    by (simp_all add: agree_on_def)
  moreover have "f w = (fst (f w), snd (f w))" and "f w' = (fst (f w'), snd (f w'))"
    by simp_all
  ultimately show thesis
    using that [of "fst (f w)" "snd (f w)" "snd (f w')"] by metis
qed

lemma read_out_st_keeps:
  assumes "collaborators_agree R c" and "R w w'"
  shows "R (read_out_st c repo commit w) (read_out_st c repo commit w')"
proof -
  from assms(1) have "keeps R (repo_unref c repo)" and "keeps R (commit_unref c commit)"
    by (simp_all add: collaborators_agree_def)
  with assms(2) show ?thesis
    by (simp add: read_out_st_def keeps_def)
qed

lemma getattr_st_agrees:
  assumes agree: "collaborators_agree R c" and rel: "R w w'" and path: "path \<noteq> []"
  shows "\<exists>r v v'. seaf_fuse_getattr_st c path stbuf w = Some (r, v) \<and>
                  seaf_fuse_getattr_st c path stbuf' w' = Some (r, v') \<and> R v v'"
proof (cases "path = ''/''")
  case True
  from agree have "agree_on R (run_getattr_root c path stat_zero)"
    by (simp add: collaborators_agree_def)
  from this rel obtain r v v' where "run_getattr_root c path stat_zero w = (r, v)"
    and "run_getattr_root c path stat_zero w' = (r, v')" and "R v v'"
    by (rule agree_onD)
  with True show ?thesis
    by (simp add: seaf_fuse_getattr_st_def)
next
  case False
  from path obtain ch rest where p: "path = ch # rest"
    by (cases path) auto
  from agree have "agree_on R (run_getattr_repo c rest stat_zero)"
    by (simp add: collaborators_agree_def)
  from this rel obtain r v v' where "run_getattr_repo c rest stat_zero w = (r, v)"
    and "run_getattr_repo c rest stat_zero w' = (r, v')" and "R v v'"
    by (rule agree_onD)
  with False p show ?thesis
    by (auto simp: seaf_fuse_getattr_st_def)
qed

text \<open>
  One stage after the other: each collaborator is called in two states that have the
  stores in the same state, returns the same result in both and leaves two such states
  for the next stage.
\<close>

lemma read_st_agrees:
  assumes agree: "collaborators_agree R c" and rel: "R w w'"
  shows "fst (seaf_fuse_read_st c path buf n offset info w)
           = fst (seaf_fuse_read_st c path buf n offset info w') \<and>
         R (snd (seaf_fuse_read_st c path buf n offset info w))
           (snd (seaf_fuse_read_st c path buf n offset info w'))"
proof (cases "flags info AND 3 \<noteq> O_RDONLY")
  case True
  with rel show ?thesis
    by (simp add: seaf_fuse_read_st_def)
next
  case ro: False
  show ?thesis
  proof (cases "parse_fuse_path path")
    case (Inl e)
    with ro rel show ?thesis
      by (simp add: seaf_fuse_read_st_def)
  next
    case (Inr pr)
    obtain repo_id repo_path where pr: "pr = (repo_id, repo_path)"
      by (cases pr)
    from agree have "agree_on R (repo_manager_get_repo c repo_id)"
      by (simp add: collaborators_agree_def)
    from this rel obtain repo w1 w1' where g1: "repo_manager_get_repo c repo_id w = (repo, w1)"
      "repo_manager_get_repo c repo_id w' = (repo, w1')" and r1: "R w1 w1'"
      by (rule agree_onD)
    show ?thesis
    proof (cases repo)
      case None
      with ro Inr pr g1 read_out_st_keeps [OF agree r1] show ?thesis
        by (simp add: seaf_fuse_read_st_def)
    next
      case (Some rp)
      from agree have "agree_on R (commit_manager_get_commit c (commit_id (head rp)))"
        by (simp add: collaborators_agree_def)
      from this r1 obtain commit w2 w2' where
        g2: "commit_manager_get_commit c (commit_id (head rp)) w1 = (commit, w2)"
          "commit_manager_get_commit c (commit_id (head rp)) w1' = (commit, w2')"
        and r2: "R w2 w2'"
        by (rule agree_onD)
      show ?thesis
      proof (cases commit)
        case None
        with ro Inr pr g1 Some g2 read_out_st_keeps [OF agree r2] show ?thesis
          by (simp add: seaf_fuse_read_st_def)
      next
        case cm: (Some cmt)
        from agree have
          "agree_on R (fs_manager_get_seafile_id_by_path c (root_id cmt) repo_path)"
          by (simp add: collaborators_agree_def)
        from this r2 obtain fid w3 w3' where
          g3: "fs_manager_get_seafile_id_by_path c (root_id cmt) repo_path w2 = (fid, w3)"
            "fs_manager_get_seafile_id_by_path c (root_id cmt) repo_path w2' = (fid, w3')"
          and r3: "R w3 w3'"
          by (rule agree_onD)
        show ?thesis
        proof (cases fid)
          case None
          with ro Inr pr g1 Some g2 cm g3 read_out_st_keeps [OF agree r3] show ?thesis
            by (simp add: seaf_fuse_read_st_def)
        next
          case fi: (Some file_id)
          from agree have "agree_on R (fs_manager_get_seafile c file_id)"
            by (simp add: collaborators_agree_def)
          from this r3 obtain sf w4 w4' where
            g4: "fs_manager_get_seafile c file_id w3 = (sf, w4)"
              "fs_manager_get_seafile c file_id w3' = (sf, w4')"
            and r4: "R w4 w4'"
            by (rule agree_onD)
          show ?thesis
          proof (cases sf)
            case None
            with ro Inr pr g1 Some g2 cm g3 fi g4 read_out_st_keeps [OF agree r4]
            show ?thesis
              by (simp add: seaf_fuse_read_st_def)
          next
            case fl: (Some f)
            from agree have "agree_on R (run_read_file c f buf n offset info)"
              by (simp add: collaborators_agree_def)
            from this r4 obtain res w5 w5' where
              g5: "run_read_file c f buf n offset info w4 = (res, w5)"
                "run_read_file c f buf n offset info w4' = (res, w5')"
              and r5: "R w5 w5'"
              by (rule agree_onD)
            obtain ret buf' where res: "res = (ret, buf')"
              by (cases res)
            with ro Inr pr g1 Some g2 cm g3 fi g4 fl g5 read_out_st_keeps [OF agree r5]
            show ?thesis
              by (simp add: seaf_fuse_read_st_def)
          qed
        qed
      qed
    qed
  qed
qed

lemma counting_collaborators_agree:
  "collaborators_agree same_session (counting_collaborators h)"
  by (auto simp: collaborators_agree_def agree_on_def keeps_def same_session_def
      counting_collaborators_def)

text \<open>
  With the counting collaborators the calls with state return what the definitions
  without state return.
\<close>

lemma getattr_st_counting:
  "map_option fst (seaf_fuse_getattr_st (counting_collaborators h) path stbuf (seaf, k))
     = seaf_fuse_getattr h seaf path stbuf"
  by (simp add: seaf_fuse_getattr_st_def seaf_fuse_getattr_def counting_collaborators_def
      split: list.splits)

lemma read_st_counting:
  "fst (seaf_fuse_read_st (counting_collaborators h) path buf n offset info (seaf, k))
     = (fst (seaf_fuse_read h seaf path buf n offset info held),
        fst (snd (seaf_fuse_read h seaf path buf n offset info held)))"
  by (auto simp: seaf_fuse_read_st_def seaf_fuse_read_def counting_collaborators_def
      read_out_def Let_def split: sum.splits option.splits prod.splits)

section \<open>The example session evaluated\<close>

lemma example_walk_file:
  "resolve_locate_walk example_session ''/3b2e4f6a-1c2d-4e5f-8a9b-0c1d2e3f4a5b/docs/readme.txt''
     = Some (''f1'', 0x81A4)"
  by (simp add: resolve_locate_walk_def parse_fuse_path_def g_strndup_def
      example_session_def example_repo_def)

lemma example_walk_root:
  "resolve_locate_walk example_session ''/3b2e4f6a-1c2d-4e5f-8a9b-0c1d2e3f4a5b''
     = Some (''r1'', 0x41ED)"
  by (simp add: resolve_locate_walk_def parse_fuse_path_def g_strndup_def
      example_session_def example_repo_def)

lemma example_walk_missing:
  "resolve_locate_walk example_session ''/3b2e4f6a-1c2d-4e5f-8a9b-0c1d2e3f4a5b/nothing''
     = None"
  by (simp add: resolve_locate_walk_def parse_fuse_path_def g_strndup_def
      example_session_def example_repo_def)

lemma S_ISREG_examples: "S_ISREG 0x81A4" "\<not> S_ISREG 0x41ED"
  by (simp_all add: S_ISREG_def)

section \<open>The claims\<close>

subsection \<open>C1: release of the handles\<close>

text \<open>
  C1 says that every operation releases the repository handle, the commit handle and the
  two strings of the path resolver on every exit path. \<^verbatim>\<open>seaf_fuse_open\<close> does not: a
  read-only \<^verbatim>\<open>open\<close> of a path that resolves to a directory, here the root of the example
  repository, returns \<open>- EACCES\<close> directly from \<^verbatim>\<open>if (!S_ISREG(mode))\<close> and still holds
  all four.
\<close>

theorem open_directory_leaks:
  "seaf_fuse_open example_session ''/3b2e4f6a-1c2d-4e5f-8a9b-0c1d2e3f4a5b''
       \<lparr>flags = 0, fh = 0\<rparr> []
     = (- EACCES, \<lparr>flags = 0, fh = 0\<rparr>, [CommitRef, RepoRef, RepoPathStr, RepoIdStr])"
  by (simp add: prod_eq_iff open_ret open_held open_info_unchanged O_RDONLY_def
      example_walk_root S_ISREG_examples)

subsection \<open>C2: only read-only access\<close>

text \<open>
  C2: whenever the two low bits of the flags differ from \<open>O_RDONLY\<close>, both \<^verbatim>\<open>open\<close> and
  \<^verbatim>\<open>read\<close> return \<open>- EACCES\<close>, for every path, session and buffer.
\<close>

theorem not_read_only_denied:
  assumes "flags info AND 3 \<noteq> O_RDONLY"
  shows "fst (seaf_fuse_open seaf path info held) = - EACCES \<and>
         fst (seaf_fuse_read h seaf path buf n offset info held) = - EACCES"
  using assms by (simp add: seaf_fuse_open_def seaf_fuse_read_def)

text \<open>Witness for C2: write-only flags on the regular file of the example.\<close>

theorem not_read_only_denied_witness:
  "flags \<lparr>flags = 1, fh = 0\<rparr> AND 3 \<noteq> O_RDONLY \<and>
   fst (seaf_fuse_open example_session
          ''/3b2e4f6a-1c2d-4e5f-8a9b-0c1d2e3f4a5b/docs/readme.txt'' \<lparr>flags = 1, fh = 0\<rparr> [])
     = - EACCES \<and>
   fst (seaf_fuse_read example_helpers example_session
          ''/3b2e4f6a-1c2d-4e5f-8a9b-0c1d2e3f4a5b/docs/readme.txt'' [] 0 0
          \<lparr>flags = 1, fh = 0\<rparr> [])
     = - EACCES"
  using not_read_only_denied [of "\<lparr>flags = 1, fh = 0\<rparr>" example_session
      "''/3b2e4f6a-1c2d-4e5f-8a9b-0c1d2e3f4a5b/docs/readme.txt''" "[]" example_helpers "[]" 0 0]
  by (simp add: O_RDONLY_def)

subsection \<open>C3: paths too short for an identifier\<close>

text \<open>
  C3 as stated (fewer than 37 characters after the leading separator) fails: a path of
  exactly 36 characters without a separator resolves.
\<close>

theorem length_36_path_resolves:
  "length (skip_leading_slash ''/3b2e4f6a-1c2d-4e5f-8a9b-0c1d2e3f4a5b'') < 37 \<and>
   parse_fuse_path ''/3b2e4f6a-1c2d-4e5f-8a9b-0c1d2e3f4a5b''
     = Inr (''3b2e4f6a-1c2d-4e5f-8a9b-0c1d2e3f4a5b'', ''/'')"
  by (simp add: parse_fuse_path_def g_strndup_def)

text \<open>
  C3, amended: every virtual path that is shorter than 36 characters after stripping a
  leading separator fails with \<open>ParseError\<close>.
\<close>

theorem short_path_fails:
  assumes "length (skip_leading_slash path) < 36"
  shows "parse_fuse_path path = Inl ParseError"
proof (cases "strchr (skip_leading_slash path) (CHR ''/'')")
  case None
  with assms show ?thesis
    by (simp add: parse_fuse_path_def)
next
  case (Some p)
  then have "p < length (skip_leading_slash path)"
    by (rule strchr_Some_less)
  with assms have "p < 36"
    by simp
  with Some show ?thesis
    by (simp add: parse_fuse_path_def)
qed

text \<open>Witness for C3, amended.\<close>

theorem short_path_fails_witness:
  "length (skip_leading_slash ''/short-id/x'') < 36 \<and>
   parse_fuse_path ''/short-id/x'' = Inl ParseError"
  using short_path_fails [of "''/short-id/x''"] by simp

subsection \<open>C4: the root of a repository\<close>

text \<open>
  C4 as stated fails for the form with a trailing separator: the in-repository path is
  then the empty string, not \<^verbatim>\<open>/\<close>.
\<close>

theorem trailing_separator_gives_empty_path:
  "parse_fuse_path ''/3b2e4f6a-1c2d-4e5f-8a9b-0c1d2e3f4a5b/''
     = Inr (''3b2e4f6a-1c2d-4e5f-8a9b-0c1d2e3f4a5b'', []) \<and>
   parse_fuse_path ''/3b2e4f6a-1c2d-4e5f-8a9b-0c1d2e3f4a5b/''
     \<noteq> Inr (''3b2e4f6a-1c2d-4e5f-8a9b-0c1d2e3f4a5b'', ''/'')"
  by (simp add: parse_fuse_path_def g_strndup_def)

text \<open>
  C4, amended: for an identifier of 36 characters without a separator, with or without a
  leading separator before it, the path that is exactly the identifier resolves to the
  identifier and the in-repository path \<^verbatim>\<open>/\<close>; the path that is the identifier followed
  by one separator resolves to the identifier and the empty in-repository path.
\<close>

theorem repository_root_paths:
  assumes "length ident = 36" and "CHR ''/'' \<notin> set ident"
  shows "parse_fuse_path ident = Inr (ident, ''/'') \<and>
         parse_fuse_path (''/'' @ ident) = Inr (ident, ''/'') \<and>
         parse_fuse_path (ident @ ''/'') = Inr (ident, []) \<and>
         parse_fuse_path (''/'' @ ident @ ''/'') = Inr (ident, [])"
proof -
  have a: "skip_leading_slash ident = ident"
    using skip_leading_slash_ident [OF assms, of "[]"] by simp
  have b: "skip_leading_slash (''/'' @ ident) = ident"
    by simp
  have c: "skip_leading_slash (ident @ ''/'') = ident @ CHR ''/'' # []"
    using skip_leading_slash_ident [OF assms, of "''/''"] by simp
  have d: "skip_leading_slash (''/'' @ ident @ ''/'') = ident @ CHR ''/'' # []"
    by simp
  show ?thesis
    using parse_skipped_no_sep [OF a assms] parse_skipped_no_sep [OF b assms]
      parse_skipped_sep [OF c assms] parse_skipped_sep [OF d assms]
    by simp
qed

text \<open>Witness for C4, amended.\<close>

theorem repository_root_paths_witness:
  "length ''3b2e4f6a-1c2d-4e5f-8a9b-0c1d2e3f4a5b'' = 36 \<and>
   CHR ''/'' \<notin> set ''3b2e4f6a-1c2d-4e5f-8a9b-0c1d2e3f4a5b'' \<and>
   parse_fuse_path ''3b2e4f6a-1c2d-4e5f-8a9b-0c1d2e3f4a5b''
     = Inr (''3b2e4f6a-1c2d-4e5f-8a9b-0c1d2e3f4a5b'', ''/'') \<and>
   parse_fuse_path ''/3b2e4f6a-1c2d-4e5f-8a9b-0c1d2e3f4a5b''
     = Inr (''3b2e4f6a-1c2d-4e5f-8a9b-0c1d2e3f4a5b'', ''/'') \<and>
   parse_fuse_path ''3b2e4f6a-1c2d-4e5f-8a9b-0c1d2e3f4a5b/''
     = Inr (''3b2e4f6a-1c2d-4e5f-8a9b-0c1d2e3f4a5b'', []) \<and>
   parse_fuse_path ''/3b2e4f6a-1c2d-4e5f-8a9b-0c1d2e3f4a5b/''
     = Inr (''3b2e4f6a-1c2d-4e5f-8a9b-0c1d2e3f4a5b'', [])"
  using repository_root_paths [of "''3b2e4f6a-1c2d-4e5f-8a9b-0c1d2e3f4a5b''"] by simp

subsection \<open>C5: paths below the root of a repository\<close>

text \<open>
  C5: for an identifier of 36 characters without a separator and a non-empty rest, the
  path made of the identifier, one separator and the rest (with or without a leading
  separator) resolves to the identifier and to the rest, verbatim, whatever separators
  the rest contains.
\<close>

theorem subpath_verbatim:
  assumes "length ident = 36" and "CHR ''/'' \<notin> set ident" and "rest \<noteq> []"
  shows "parse_fuse_path (ident @ ''/'' @ rest) = Inr (ident, rest) \<and>
         parse_fuse_path (''/'' @ ident @ ''/'' @ rest) = Inr (ident, rest)"
proof -
  have a: "skip_leading_slash (ident @ ''/'' @ rest) = ident @ CHR ''/'' # rest"
    using skip_leading_slash_ident [OF assms(1,2), of "''/'' @ rest"] by simp
  have b: "skip_leading_slash (''/'' @ ident @ ''/'' @ rest) = ident @ CHR ''/'' # rest"
    by simp
  show ?thesis
    using parse_skipped_sep [OF a assms(1,2)] parse_skipped_sep [OF b assms(1,2)]
    by simp
qed

text \<open>Witness for C5.\<close>

theorem subpath_verbatim_witness:
  "length ''3b2e4f6a-1c2d-4e5f-8a9b-0c1d2e3f4a5b'' = 36 \<and>
   CHR ''/'' \<notin> set ''3b2e4f6a-1c2d-4e5f-8a9b-0c1d2e3f4a5b'' \<and>
   ''docs/readme.txt'' \<noteq> [] \<and>
   parse_fuse_path ''3b2e4f6a-1c2d-4e5f-8a9b-0c1d2e3f4a5b/docs/readme.txt''
     = Inr (''3b2e4f6a-1c2d-4e5f-8a9b-0c1d2e3f4a5b'', ''docs/readme.txt'') \<and>
   parse_fuse_path ''/3b2e4f6a-1c2d-4e5f-8a9b-0c1d2e3f4a5b/docs/readme.txt''
     = Inr (''3b2e4f6a-1c2d-4e5f-8a9b-0c1d2e3f4a5b'', ''docs/readme.txt'')"
  using subpath_verbatim [of "''3b2e4f6a-1c2d-4e5f-8a9b-0c1d2e3f4a5b''" "''docs/readme.txt''"]
  by simp

subsection \<open>C6: the result of a read-only open\<close>

text \<open>
  C6: a read-only \<^verbatim>\<open>open\<close> returns \<open>- ENOENT\<close> when a stage of the pipeline fails (the
  path does not parse, the repository is absent, the commit of its head cannot be
  fetched, the in-repository path is absent from the tree), \<open>- EACCES\<close> when the path
  resolves to an object whose mode is not that of a regular file, and 0 otherwise.
\<close>

theorem read_only_open_result:
  assumes "flags info AND 3 = O_RDONLY"
  shows "fst (seaf_fuse_open seaf path info held) =
           (case resolve_locate_walk seaf path of
              None \<Rightarrow> - ENOENT
            | Some (obj, mode) \<Rightarrow> if S_ISREG mode then 0 else - EACCES)"
  using assms by (simp add: open_ret)

text \<open>
  Witness for C6: in the example session, the regular file opens, the root directory of
  the repository is refused, a missing path is not found.
\<close>

theorem read_only_open_result_witness:
  "flags \<lparr>flags = 0, fh = 0\<rparr> AND 3 = O_RDONLY \<and>
   fst (seaf_fuse_open example_session
          ''/3b2e4f6a-1c2d-4e5f-8a9b-0c1d2e3f4a5b/docs/readme.txt'' \<lparr>flags = 0, fh = 0\<rparr> []) = 0 \<and>
   fst (seaf_fuse_open example_session
          ''/3b2e4f6a-1c2d-4e5f-8a9b-0c1d2e3f4a5b'' \<lparr>flags = 0, fh = 0\<rparr> []) = - EACCES \<and>
   fst (seaf_fuse_open example_session
          ''/3b2e4f6a-1c2d-4e5f-8a9b-0c1d2e3f4a5b/nothing'' \<lparr>flags = 0, fh = 0\<rparr> []) = - ENOENT"
proof -
  have ro: "flags \<lparr>flags = 0, fh = 0\<rparr> AND 3 = O_RDONLY"
    by (simp add: O_RDONLY_def)
  show ?thesis
    using ro
      read_only_open_result [OF ro, of example_session
        "''/3b2e4f6a-1c2d-4e5f-8a9b-0c1d2e3f4a5b/docs/readme.txt''" "[]"]
      read_only_open_result [OF ro, of example_session
        "''/3b2e4f6a-1c2d-4e5f-8a9b-0c1d2e3f4a5b''" "[]"]
      read_only_open_result [OF ro, of example_session
        "''/3b2e4f6a-1c2d-4e5f-8a9b-0c1d2e3f4a5b/nothing''" "[]"]
    by (simp add: example_walk_file example_walk_root example_walk_missing S_ISREG_examples)
qed

subsection \<open>C7: the entries of a directory listing\<close>

text \<open>
  C7: for every path, the first two names that \<^verbatim>\<open>readdir\<close> passes to the filler are
  \<^verbatim>\<open>.\<close> and \<^verbatim>\<open>..\<close>, whatever the helpers emit after them; and at the mount root, with
  the root listing of the specification, the names after these two are the identifiers of
  the repositories of the registry, one for each, whatever the repositories contain.
\<close>

theorem readdir_dot_entries_first:
  "take 2 (snd (seaf_fuse_readdir h seaf path offset info)) = [''.'', ''..''] \<and>
   snd (seaf_fuse_readdir (h\<lparr>readdir_root := readdir_root_spec\<rparr>) seaf ''/'' offset info)
     = [''.'', ''..''] @ map repo_ident (repo_list seaf)"
  by (simp add: seaf_fuse_readdir_def readdir_root_spec_def Let_def split: prod.splits)

subsection \<open>C8: repeated calls\<close>

text \<open>
  C8: take two invocations, one in the state \<open>w\<close> and one in the state \<open>w'\<close>, with the
  external stores in the same state in both (\<open>R w w'\<close>), and collaborators whose answers
  are determined by the state of the stores. Then \<^verbatim>\<open>getattr\<close> on the same non-empty path
  returns the same return value and the same \<^verbatim>\<open>struct stat\<close> in both, whatever the
  buffer held before either call; \<^verbatim>\<open>read\<close> with the same path, buffer, size, offset
  and flags returns the same return value and the same buffer content in both; and the
  two calls leave the stores in the same state again. Everything else may differ between
  \<open>w\<close> and \<open>w'\<close>, in particular what earlier calls have left behind.
\<close>

theorem repeated_calls_agree:
  assumes "collaborators_agree R c" and "R w w'"
  shows "(path \<noteq> [] \<longrightarrow>
            (\<exists>r v v'. seaf_fuse_getattr_st c path stbuf w = Some (r, v) \<and>
                       seaf_fuse_getattr_st c path stbuf' w' = Some (r, v') \<and> R v v')) \<and>
         fst (seaf_fuse_read_st c path buf n offset info w)
           = fst (seaf_fuse_read_st c path buf n offset info w') \<and>
         R (snd (seaf_fuse_read_st c path buf n offset info w))
           (snd (seaf_fuse_read_st c path buf n offset info w'))"
  using getattr_st_agrees [OF assms, of path stbuf stbuf']
    read_st_agrees [OF assms, of path buf n offset info]
  by blast

text \<open>
  Witness for C8: with the counting collaborators, a \<^verbatim>\<open>read\<close> of the regular file of the
  example makes seven calls and returns 120; the second \<^verbatim>\<open>read\<close>, in the state the first
  has left, returns the same. \<^verbatim>\<open>getattr\<close> returns the same \<^verbatim>\<open>struct stat\<close> from two
  different buffers.
\<close>

theorem repeated_calls_agree_witness:
  "collaborators_agree same_session (counting_collaborators example_helpers) \<and>
   same_session (example_session, 0) (example_session, 7) \<and>
   ''/3b2e4f6a-1c2d-4e5f-8a9b-0c1d2e3f4a5b/docs/readme.txt'' \<noteq> [] \<and>
   seaf_fuse_read_st (counting_collaborators example_helpers)
       ''/3b2e4f6a-1c2d-4e5f-8a9b-0c1d2e3f4a5b/docs/readme.txt'' [] 1024 0
       \<lparr>flags = 0, fh = 0\<rparr> (example_session, 0)
     = ((120, []), (example_session, 7)) \<and>
   seaf_fuse_read_st (counting_collaborators example_helpers)
       ''/3b2e4f6a-1c2d-4e5f-8a9b-0c1d2e3f4a5b/docs/readme.txt'' [] 1024 0
       \<lparr>flags = 0, fh = 0\<rparr> (example_session, 7)
     = ((120, []), (example_session, 14)) \<and>
   seaf_fuse_getattr_st (counting_collaborators example_helpers)
       ''/3b2e4f6a-1c2d-4e5f-8a9b-0c1d2e3f4a5b/docs/readme.txt''
       \<lparr>st_mode = 0, st_nlink = 0, st_size = 0\<rparr> (example_session, 0)
     = Some ((0, \<lparr>st_mode = 0x81A4, st_nlink = 1, st_size = 0\<rparr>), (example_session, 1)) \<and>
   seaf_fuse_getattr_st (counting_collaborators example_helpers)
       ''/3b2e4f6a-1c2d-4e5f-8a9b-0c1d2e3f4a5b/docs/readme.txt''
       \<lparr>st_mode = 0x41ED, st_nlink = 2, st_size = 9\<rparr> (example_session, 7)
     = Some ((0, \<lparr>st_mode = 0x81A4, st_nlink = 1, st_size = 0\<rparr>), (example_session, 8))"
proof -
  have agree: "collaborators_agree same_session (counting_collaborators example_helpers)"
    by (rule counting_collaborators_agree)
  have rel: "same_session (example_session, 0) (example_session, 7)"
    by (simp add: same_session_def)
  have walk: "resolve_locate_walk example_session
      ''3b2e4f6a-1c2d-4e5f-8a9b-0c1d2e3f4a5b/docs/readme.txt'' = Some (''f1'', 0x81A4)"
    by (simp add: resolve_locate_walk_def parse_fuse_path_def g_strndup_def
        example_session_def example_repo_def)
  have rd: "seaf_fuse_read_st (counting_collaborators example_helpers)
       ''/3b2e4f6a-1c2d-4e5f-8a9b-0c1d2e3f4a5b/docs/readme.txt'' [] 1024 0
       \<lparr>flags = 0, fh = 0\<rparr> (example_session, k)
     = ((120, []), (example_session, k + 7))" for k
    by (simp add: seaf_fuse_read_st_def parse_fuse_path_def g_strndup_def O_RDONLY_def
        counting_collaborators_def read_out_st_def example_session_def example_repo_def
        example_helpers_def)
  have ga: "seaf_fuse_getattr_st (counting_collaborators example_helpers)
       ''/3b2e4f6a-1c2d-4e5f-8a9b-0c1d2e3f4a5b/docs/readme.txt'' st (example_session, k)
     = Some ((0, \<lparr>st_mode = 0x81A4, st_nlink = 1, st_size = 0\<rparr>), (example_session, Suc k))"
    for st k
    by (simp add: seaf_fuse_getattr_st_def counting_collaborators_def example_helpers_def
        walk stat_zero_def)
  show ?thesis
    using agree rel
      repeated_calls_agree [OF agree rel,
        of "''/3b2e4f6a-1c2d-4e5f-8a9b-0c1d2e3f4a5b/docs/readme.txt''"
          "\<lparr>st_mode = 0, st_nlink = 0, st_size = 0\<rparr>"
          "\<lparr>st_mode = 0x41ED, st_nlink = 2, st_size = 9\<rparr>" "[]" 1024 0
          "\<lparr>flags = 0, fh = 0\<rparr>"]
    by (simp add: rd [of 0, simplified] rd [of 7, simplified] ga)
qed

subsection \<open>C9: open keeps no state\<close>

text \<open>
  C9: \<^verbatim>\<open>open\<close> leaves the \<^verbatim>\<open>fuse_file_info\<close> structure as it found it (in particular
  the file handle \<open>fh\<close>); a successful \<^verbatim>\<open>open\<close> holds no resource when it returns; and a
  \<^verbatim>\<open>read\<close> after the \<^verbatim>\<open>open\<close> returns what the same \<^verbatim>\<open>read\<close> returns without it, so
  it resolves the path again by itself.
\<close>

theorem open_keeps_no_state:
  "fst (snd (seaf_fuse_open seaf path info held)) = info \<and>
   (fst (seaf_fuse_open seaf path info held) = 0 \<longrightarrow>
      snd (snd (seaf_fuse_open seaf path info held)) = held) \<and>
   fst (seaf_fuse_read h seaf path buf n offset
          (fst (snd (seaf_fuse_open seaf path info held)))
          (snd (snd (seaf_fuse_open seaf path info held))))
     = fst (seaf_fuse_read h seaf path buf n offset info held) \<and>
   fst (snd (seaf_fuse_read h seaf path buf n offset
          (fst (snd (seaf_fuse_open seaf path info held)))
          (snd (snd (seaf_fuse_open seaf path info held)))))
     = fst (snd (seaf_fuse_read h seaf path buf n offset info held))"
proof -
  have "snd (snd (seaf_fuse_open seaf path info held)) = held"
    if "fst (seaf_fuse_open seaf path info held) = 0"
  proof -
    have "EACCES \<noteq> 0" "ENOENT \<noteq> 0"
      by (simp_all add: EACCES_def ENOENT_def)
    with that show ?thesis
      by (auto simp: open_ret open_held split: if_splits option.splits)
  qed
  then show ?thesis
    using read_result_indep_held
      [of h seaf path buf n offset info "snd (snd (seaf_fuse_open seaf path info held))" held]
    by (simp add: open_info_unchanged)
qed

text \<open>Witness for C9: the successful open of the regular file of the example.\<close>

theorem open_keeps_no_state_witness:
  "fst (seaf_fuse_open example_session
          ''/3b2e4f6a-1c2d-4e5f-8a9b-0c1d2e3f4a5b/docs/readme.txt'' \<lparr>flags = 0, fh = 0\<rparr> []) = 0 \<and>
   seaf_fuse_open example_session
          ''/3b2e4f6a-1c2d-4e5f-8a9b-0c1d2e3f4a5b/docs/readme.txt'' \<lparr>flags = 0, fh = 0\<rparr> []
     = (0, \<lparr>flags = 0, fh = 0\<rparr>, [])"
proof -
  have "fst (seaf_fuse_open example_session
          ''/3b2e4f6a-1c2d-4e5f-8a9b-0c1d2e3f4a5b/docs/readme.txt'' \<lparr>flags = 0, fh = 0\<rparr> []) = 0"
    by (simp add: open_ret O_RDONLY_def example_walk_file S_ISREG_examples)
  then show ?thesis
    using open_keeps_no_state [of example_session
        "''/3b2e4f6a-1c2d-4e5f-8a9b-0c1d2e3f4a5b/docs/readme.txt''" "\<lparr>flags = 0, fh = 0\<rparr>" "[]"
        example_helpers "[]" 0 0]
    by (simp add: prod_eq_iff)
qed

subsection \<open>C10: one leading separator\<close>

text \<open>
  C10: for a path \<open>s\<close> that does not begin with a separator, the path \<^verbatim>\<open>/\<close>\<open>s\<close> resolves
  as \<open>s\<close> does; and every path that begins with two separators fails with \<open>ParseError\<close>.
\<close>

theorem one_leading_separator_stripped:
  "(take 1 s \<noteq> ''/'' \<longrightarrow> parse_fuse_path (''/'' @ s) = parse_fuse_path s) \<and>
   parse_fuse_path (''//'' @ t) = Inl ParseError"
proof -
  have "skip_leading_slash (''/'' @ s) = skip_leading_slash s" if "take 1 s \<noteq> ''/''"
    using that by (cases s) auto
  then have "parse_fuse_path (''/'' @ s) = parse_fuse_path s" if "take 1 s \<noteq> ''/''"
    using that by (simp add: parse_fuse_path_def)
  moreover have "parse_fuse_path (''//'' @ t) = Inl ParseError"
    by (simp add: parse_fuse_path_def)
  ultimately show ?thesis by blast
qed

text \<open>Witness for C10.\<close>

theorem one_leading_separator_stripped_witness:
  "take 1 ''3b2e4f6a-1c2d-4e5f-8a9b-0c1d2e3f4a5b/a/b'' \<noteq> ''/'' \<and>
   parse_fuse_path ''/3b2e4f6a-1c2d-4e5f-8a9b-0c1d2e3f4a5b/a/b''
     = parse_fuse_path ''3b2e4f6a-1c2d-4e5f-8a9b-0c1d2e3f4a5b/a/b'' \<and>
   parse_fuse_path ''3b2e4f6a-1c2d-4e5f-8a9b-0c1d2e3f4a5b/a/b''
     = Inr (''3b2e4f6a-1c2d-4e5f-8a9b-0c1d2e3f4a5b'', ''a/b'') \<and>
   parse_fuse_path ''//3b2e4f6a-1c2d-4e5f-8a9b-0c1d2e3f4a5b/a/b'' = Inl ParseError"
  using one_leading_separator_stripped
    [of "''3b2e4f6a-1c2d-4e5f-8a9b-0c1d2e3f4a5b/a/b''" "''3b2e4f6a-1c2d-4e5f-8a9b-0c1d2e3f4a5b/a/b''"]
  by (simp add: parse_fuse_path_def g_strndup_def)

end
